theory Spec2Isabelle
  imports Complex_Main
begin

section \<open>Planar 3-link manipulator dashboard: kinematics and playback\<close>

text \<open>
  The component \<open>LspbDashboard\<close> of \<open>frontend/app/viz/lspb-manipulator/page.tsx\<close>.
  JavaScript numbers are modelled as mathematical reals, as the data model of the
  specification has them (\<open>Point2D\<close>, \<open>JointAngles\<close> and \<open>LinkLengths\<close> are real numbers);
  rounding, infinities and NaN of IEEE doubles are outside the model.
\<close>

subsection \<open>Data\<close>

text \<open>The object literal \<open>{ x, y }\<close> of robot space.\<close>

record point =
  pt_x :: real
  pt_y :: real

text \<open>
  A trajectory sample as the planning service returns it (\<open>raw_sample\<close>) and as the
  component stores it after adding the end effector position (\<open>sample\<close>).
\<close>

record raw_sample =
  time :: real
  q1 :: real
  q2 :: real
  q3 :: real

record sample = raw_sample +
  ee_x :: real
  ee_y :: real

subsection \<open>Forward kinematics\<close>

text \<open>
  \<open>getJointPositions\<close>: the \<open>for\<close> loop over \<open>i = 0, 1, 2\<close> with its four mutable
  variables \<open>x\<close>, \<open>y\<close>, \<open>currentAngle\<close> and \<open>points\<close>. The arrays \<open>q\<close> and \<open>lengths\<close>
  are lists read by index; every caller passes three angles.
\<close>

function fk_loop ::
  "real list \<Rightarrow> real list \<Rightarrow> nat \<Rightarrow> real \<Rightarrow> real \<Rightarrow> real \<Rightarrow> point list \<Rightarrow> point list" where
  "fk_loop q lengths i x y currentAngle points =
     (if i < 3 then
        (let currentAngle' = currentAngle + q ! i;
             x' = x + lengths ! i * cos currentAngle';
             y' = y + lengths ! i * sin currentAngle'
         in fk_loop q lengths (i + 1) x' y' currentAngle' (points @ [\<lparr>pt_x = x', pt_y = y'\<rparr>]))
      else points)"
  by pat_completeness auto
termination
  by (relation "measure (\<lambda>(q, lengths, i, x, y, currentAngle, points). 3 - i)") auto

declare fk_loop.simps [simp del]

definition getJointPositions :: "real list \<Rightarrow> real \<Rightarrow> real \<Rightarrow> real \<Rightarrow> point list" where
  "getJointPositions q l1 l2 l3 =
     fk_loop q [l1, l2, l3] 0 0 0 0 [\<lparr>pt_x = 0, pt_y = 0\<rparr>]"

subsection \<open>Reach clamping\<close>

text \<open>
  The clamping lines of \<open>handleCanvasClick\<close>: \<open>maxReach\<close> is the sum of the link lengths
  minus the buffer \<open>0.1\<close>, and a target farther away than that is scaled onto the boundary.
\<close>

definition maxReach :: "real \<Rightarrow> real \<Rightarrow> real \<Rightarrow> real" where
  "maxReach l1 l2 l3 = l1 + l2 + l3 - 0.1"

definition clamp :: "point \<Rightarrow> real \<Rightarrow> point" where
  "clamp target m =
     (let dist = sqrt ((pt_x target)\<^sup>2 + (pt_y target)\<^sup>2)
      in if dist > m
         then target\<lparr>pt_x := pt_x target / dist * m, pt_y := pt_y target / dist * m\<rparr>
         else target)"

subsection \<open>Coordinate mapping\<close>

definition CANVAS_WIDTH :: real where "CANVAS_WIDTH = 600"
definition CANVAS_HEIGHT :: real where "CANVAS_HEIGHT = 600"
definition BASE_X :: real where "BASE_X = CANVAS_WIDTH / 2"
definition BASE_Y :: real where "BASE_Y = CANVAS_HEIGHT / 2"

definition toCanvasCoords :: "real \<Rightarrow> real \<Rightarrow> real \<times> real" where
  "toCanvasCoords x y = (BASE_X + x, BASE_Y - y)"

definition toRobotCoords :: "real \<Rightarrow> real \<Rightarrow> point" where
  "toRobotCoords cx cy = \<lparr>pt_x = cx - BASE_X, pt_y = BASE_Y - cy\<rparr>"

subsection \<open>Component state\<close>

text \<open>
  The body of the POST request. The continuation of \<open>handleCanvasClick\<close> after the
  \<open>await\<close> still sees the link lengths of the render in which the click happened; they
  are the \<open>l1\<close>, \<open>l2\<close>, \<open>l3\<close> of the body.
\<close>

record request =
  req_current_angles :: "real list"
  req_target_x :: real
  req_target_y :: real
  req_duration :: real
  req_dt :: real
  req_l1 :: real
  req_l2 :: real
  req_l3 :: real

text \<open>
  A JSON value, as \<open>res.json()\<close> yields it. A number carries the text that JavaScript
  prints for it.
\<close>

datatype json =
    JNull
  | JBool bool
  | JNumber real string
  | JString string
  | JArray "json list"
  | JObject "(string \<times> json) list"

text \<open>
  What the \<open>await\<close>s of \<open>handleCanvasClick\<close> can produce: a body with a trajectory; a
  response that is not \<open>ok\<close>, with the \<open>detail\<close> of its body (\<open>None\<close> is \<open>undefined\<close>: the
  body has no such field); or an exception (\<open>fetch\<close> rejected, the body is no JSON or is
  \<open>null\<close>, \<open>data.trajectory\<close> is missing) with its message.
\<close>

datatype response =
    Success "raw_sample list"
  | NotOk "json option"
  | Thrown string

text \<open>
  One run of the animation effect: the closure of \<open>animate\<close> with the \<open>trajectory\<close> of
  its render, its own \<open>frameIndex\<close>, and the callback that is scheduled at the moment:
  the animation frame \<open>frameId\<close>, or the 50 ms timeout that will request the next frame.
  \<open>attached\<close> holds until the cleanup function of the effect has run.
\<close>

datatype scheduled = AnimationFrame | Timeout

record loop =
  loop_trajectory :: "sample list"
  frameIndex :: nat
  scheduled :: scheduled
  attached :: bool

record state =
  L1 :: real
  L2 :: real
  L3 :: real
  duration :: real
  currentAngles :: "real list"
  targetXY :: "point option"
  trajectory :: "sample list"
  isAnimating :: bool
  currentFrame :: nat
  hoverFrame :: "int option"
  error :: "string option"
  loops :: "loop list"
  inflight :: "request list"

definition home_pose :: "real list" where
  "home_pose = [pi / 4, - pi / 4, - pi / 4]"

definition initial :: state where
  "initial = \<lparr>L1 = 100, L2 = 80, L3 = 60, duration = 2.5, currentAngles = home_pose,
     targetXY = None, trajectory = [], isAnimating = False, currentFrame = 0,
     hoverFrame = None, error = None, loops = [], inflight = []\<rparr>"

text \<open>The status line of the page names the playback state.\<close>

datatype playback = Idle | Animating | Scrubbing

definition playbackState :: "state \<Rightarrow> playback" where
  "playbackState s =
     (if hoverFrame s \<noteq> None then Scrubbing else if isAnimating s then Animating else Idle)"

subsection \<open>Live Jacobian\<close>

text \<open>\<open>getLiveJacobian\<close> reads the link lengths of the component state.\<close>

definition getLiveJacobian :: "state \<Rightarrow> real list \<Rightarrow> real list list" where
  "getLiveJacobian s q =
     (let s1 = sin (q ! 0);
          c1 = cos (q ! 0);
          s12 = sin (q ! 0 + q ! 1);
          c12 = cos (q ! 0 + q ! 1);
          s123 = sin (q ! 0 + q ! 1 + q ! 2);
          c123 = cos (q ! 0 + q ! 1 + q ! 2)
      in [[- L1 s * s1 - L2 s * s12 - L3 s * s123, - L2 s * s12 - L3 s * s123, - L3 s * s123],
          [L1 s * c1 + L2 s * c12 + L3 s * c123, L2 s * c12 + L3 s * c123, L3 s * c123]])"

subsection \<open>Display angles\<close>

text \<open>
  \<open>trajectory[hoverFrame]\<close>: JavaScript yields \<open>undefined\<close> for an index that is no
  element of the array; the samples themselves are objects, hence truthy.
\<close>

definition at_index :: "'a list \<Rightarrow> int \<Rightarrow> 'a option" where
  "at_index xs k = (if 0 \<le> k \<and> nat k < length xs then Some (xs ! nat k) else None)"

definition angles_of :: "'a raw_sample_scheme \<Rightarrow> real list" where
  "angles_of p = [q1 p, q2 p, q3 p]"

definition displayAngles :: "state \<Rightarrow> real list" where
  "displayAngles s =
     (case hoverFrame s of
        None \<Rightarrow> currentAngles s
      | Some h \<Rightarrow>
          (case at_index (trajectory s) h of
             None \<Rightarrow> currentAngles s
           | Some p \<Rightarrow> angles_of p))"

text \<open>The header shows the error with \<open>{error && ...}\<close>: not for \<open>null\<close>, not for the empty string.\<close>

definition errorBanner :: "state \<Rightarrow> string option" where
  "errorBanner s = (case error s of None \<Rightarrow> None | Some m \<Rightarrow> if m = [] then None else Some m)"

subsection \<open>The animation effect\<close>

text \<open>
  The cleanup function calls \<open>cancelAnimationFrame(frameId)\<close>: it removes the callback of
  the attached loop when that is an animation frame; a pending timeout is not touched, and
  its loop runs on without a cleanup.
\<close>

definition cleanup :: "loop list \<Rightarrow> loop list" where
  "cleanup ls =
     map (\<lambda>l. l\<lparr>attached := False\<rparr>)
       (filter (\<lambda>l. \<not> (attached l \<and> scheduled l = AnimationFrame)) ls)"

text \<open>The effect body: it returns early, or starts a loop at \<open>frameIndex = 0\<close>.\<close>

definition animationEffect :: "state \<Rightarrow> state" where
  "animationEffect s =
     (if \<not> isAnimating s \<or> length (trajectory s) = 0 \<or> hoverFrame s \<noteq> None then s
      else s\<lparr>loops := loops s @
             [\<lparr>loop_trajectory = trajectory s, frameIndex = 0,
               scheduled = AnimationFrame, attached = True\<rparr>]\<rparr>)"

text \<open>
  After the state updates of one event the component renders, and the effect runs again
  (cleanup first) when one of its dependencies \<open>[isAnimating, trajectory, hoverFrame]\<close>
  changed. \<open>trajectory\<close> is compared by identity: \<open>replaced\<close> tells that the event stored
  a new array.
\<close>

definition rerender :: "state \<Rightarrow> bool \<Rightarrow> state \<Rightarrow> state" where
  "rerender old replaced s =
     (if isAnimating s \<noteq> isAnimating old \<or> replaced \<or> hoverFrame s \<noteq> hoverFrame old
      then animationEffect (s\<lparr>loops := cleanup (loops s)\<rparr>)
      else s)"

definition remove_at :: "nat \<Rightarrow> 'a list \<Rightarrow> 'a list" where
  "remove_at i xs = take i xs @ drop (Suc i) xs"

text \<open>
  \<open>animate\<close>, run by the animation frame of loop \<open>i\<close>. A loop only starts on a trajectory
  that is not empty, so \<open>trajectory[trajectory.length - 1]\<close> is a sample.
\<close>

definition animate :: "nat \<Rightarrow> state \<Rightarrow> state" where
  "animate i s =
     (let l = loops s ! i; traj = loop_trajectory l in
      if frameIndex l \<ge> length traj then
        (let finalPoint = traj ! (length traj - 1)
         in rerender s False
              (s\<lparr>isAnimating := False,
                 currentAngles := [q1 finalPoint, q2 finalPoint, q3 finalPoint],
                 loops := remove_at i (loops s)\<rparr>))
      else
        (let point = traj ! frameIndex l
         in s\<lparr>currentFrame := frameIndex l,
              currentAngles := [q1 point, q2 point, q3 point],
              loops := (loops s)[i := l\<lparr>frameIndex := frameIndex l + 1, scheduled := Timeout\<rparr>]\<rparr>))"

text \<open>The scheduled callback of loop \<open>i\<close> fires.\<close>

definition fire :: "nat \<Rightarrow> state \<Rightarrow> state" where
  "fire i s =
     (if i < length (loops s) then
        (case scheduled (loops s ! i) of
           Timeout \<Rightarrow> s\<lparr>loops := (loops s)[i := (loops s ! i)\<lparr>scheduled := AnimationFrame\<rparr>]\<rparr>
         | AnimationFrame \<Rightarrow> animate i s)
      else s)"

subsection \<open>Click, response, hover and reset\<close>

text \<open>
  \<open>handleCanvasClick\<close> up to the \<open>await\<close>: \<open>rect\<close> is the bounding rectangle (left, top)
  of the canvas, absent when the canvas is not mounted.
\<close>

definition handleCanvasClick :: "real \<Rightarrow> real \<Rightarrow> (real \<times> real) option \<Rightarrow> state \<Rightarrow> state" where
  "handleCanvasClick clientX clientY rect s =
     (if isAnimating s then s
      else case rect of
        None \<Rightarrow> s
      | Some (rect_left, rect_top) \<Rightarrow>
          (let cx = clientX - rect_left;
               cy = clientY - rect_top;
               target = clamp (toRobotCoords cx cy) (maxReach (L1 s) (L2 s) (L3 s))
           in s\<lparr>targetXY := Some target, error := None,
                inflight := inflight s @
                  [\<lparr>req_current_angles = currentAngles s, req_target_x = pt_x target,
                    req_target_y = pt_y target, req_duration = duration s, req_dt = 0.05,
                    req_l1 = L1 s, req_l2 = L2 s, req_l3 = L3 s\<rparr>]\<rparr>))"

definition enrich :: "request \<Rightarrow> raw_sample \<Rightarrow> sample" where
  "enrich rq pt =
     (let ee = getJointPositions [q1 pt, q2 pt, q3 pt] (req_l1 rq) (req_l2 rq) (req_l3 rq) ! 3
      in \<lparr>time = time pt, q1 = q1 pt, q2 = q2 pt, q3 = q3 pt, ee_x = pt_x ee, ee_y = pt_y ee\<rparr>)"

text \<open>
  \<open>detail || "Failed to generate trajectory"\<close> takes the right side for a falsy detail:
  \<open>undefined\<close>, \<open>null\<close>, \<open>false\<close>, \<open>0\<close> and the empty string.
\<close>

fun truthy :: "json \<Rightarrow> bool" where
  "truthy JNull = False"
| "truthy (JBool b) = b"
| "truthy (JNumber x txt) = (x \<noteq> 0)"
| "truthy (JString str) = (str \<noteq> [])"
| "truthy (JArray vs) = True"
| "truthy (JObject members) = True"

text \<open>
  \<open>new Error(v).message\<close> is the string conversion of \<open>v\<close>: an array is the texts of its
  elements joined by commas, with nothing for a \<open>null\<close> element; an object is
  \<open>[object Object]\<close>.
\<close>

fun js_string :: "json \<Rightarrow> string" and js_join :: "json list \<Rightarrow> string" where
  "js_string JNull = ''null''"
| "js_string (JBool b) = (if b then ''true'' else ''false'')"
| "js_string (JNumber x txt) = txt"
| "js_string (JString str) = str"
| "js_string (JArray vs) = js_join vs"
| "js_string (JObject members) = ''[object Object]''"
| "js_join [] = []"
| "js_join (v # vs) =
     (if v = JNull then [] else js_string v) @ (if vs = [] then [] else '','' @ js_join vs)"

text \<open>The message of the error that the \<open>catch\<close> block receives.\<close>

fun failure_message :: "response \<Rightarrow> string option" where
  "failure_message (Success data) = None"
| "failure_message (NotOk detail) =
     (case detail of
        None \<Rightarrow> Some ''Failed to generate trajectory''
      | Some v \<Rightarrow> Some (if truthy v then js_string v else ''Failed to generate trajectory''))"
| "failure_message (Thrown msg) = Some msg"

text \<open>\<open>handleCanvasClick\<close> after the \<open>await\<close>, for the request at position \<open>i\<close>.\<close>

definition handleResponse :: "nat \<Rightarrow> response \<Rightarrow> state \<Rightarrow> state" where
  "handleResponse i r s =
     (if i < length (inflight s) then
        (let rq = inflight s ! i; s' = s\<lparr>inflight := remove_at i (inflight s)\<rparr>
         in case r of
              Success data \<Rightarrow>
                rerender s True
                  (s'\<lparr>trajectory := map (enrich rq) data, currentFrame := 0, isAnimating := True\<rparr>)
            | _ \<Rightarrow> s'\<lparr>error := failure_message r, targetXY := None\<rparr>)
      else s)"

text \<open>\<open>onMouseMove\<close> and \<open>onMouseLeave\<close> of the charts.\<close>

definition onMouseMove :: "int option \<Rightarrow> state \<Rightarrow> state" where
  "onMouseMove activeTooltipIndex s =
     (case activeTooltipIndex of
        None \<Rightarrow> s
      | Some k \<Rightarrow> rerender s False (s\<lparr>hoverFrame := Some k\<rparr>))"

definition onMouseLeave :: "state \<Rightarrow> state" where
  "onMouseLeave s = rerender s False (s\<lparr>hoverFrame := None\<rparr>)"

text \<open>The \<open>onClick\<close> of the button "Reset Pose".\<close>

definition resetPose :: "state \<Rightarrow> state" where
  "resetPose s =
     rerender s True
       (s\<lparr>currentAngles := [pi / 4, - pi / 4, - pi / 4], trajectory := [],
          targetXY := None, error := None, hoverFrame := None\<rparr>)"

subsection \<open>The event loop\<close>

datatype event =
    Click real real "(real \<times> real) option"
  | Response nat response
  | HoverMove "int option"
  | HoverLeave
  | Reset
  | Fire nat

fun step :: "event \<Rightarrow> state \<Rightarrow> state" where
  "step (Click clientX clientY rect) s = handleCanvasClick clientX clientY rect s"
| "step (Response i r) s = handleResponse i r s"
| "step (HoverMove k) s = onMouseMove k s"
| "step HoverLeave s = onMouseLeave s"
| "step Reset s = resetPose s"
| "step (Fire i) s = fire i s"

definition run :: "event list \<Rightarrow> state \<Rightarrow> state" where
  "run es s = fold step es s"

subsection \<open>Playback with one loop, and concrete traces\<close>

text \<open>
  Undisturbed playback: the component is animating, no chart is hovered, and the only
  scheduled callback is the animation frame of the attached loop over \<open>traj\<close>, which
  will show frame \<open>k\<close> next.
\<close>

definition single_loop :: "sample list \<Rightarrow> nat \<Rightarrow> state \<Rightarrow> bool" where
  "single_loop traj k s \<longleftrightarrow>
     isAnimating s \<and> hoverFrame s = None \<and>
     loops s = [\<lparr>loop_trajectory = traj, frameIndex = k,
                 scheduled = AnimationFrame, attached = True\<rparr>]"

text \<open>A response of three samples, a click on the canvas, and the states they lead to.\<close>

definition three_samples :: "raw_sample list" where
  "three_samples =
     [\<lparr>time = 0, q1 = 0, q2 = 0, q3 = 0\<rparr>,
      \<lparr>time = 0.05, q1 = 1, q2 = 1, q3 = 1\<rparr>,
      \<lparr>time = 0.1, q1 = 2, q2 = 2, q3 = 2\<rparr>]"

definition canvas_click :: event where
  "canvas_click = Click 400 300 (Some (0, 0))"

text \<open>One request is in flight, nothing else has happened.\<close>

definition awaiting :: state where
  "awaiting = step canvas_click initial"

text \<open>
  Frames 0 and 1 of the three samples have been shown. In \<open>playing\<close> the animation frame
  that will show frame 2 is scheduled; in \<open>playing_in_timeout\<close> the 50 ms timeout before
  it is still pending.
\<close>

definition playing_in_timeout :: state where
  "playing_in_timeout =
     run [Response 0 (Success three_samples), Fire 0, Fire 0, Fire 0] awaiting"

definition playing :: state where
  "playing = step (Fire 0) playing_in_timeout"

text \<open>
  All three frames have been shown and the timeout before the frame that ends playback is
  pending (\<open>all_shown\<close>); then a chart is hovered and left again (\<open>two_loops\<close>).
\<close>

definition all_shown :: state where
  "all_shown = step (Fire 0) playing"

definition two_loops :: state where
  "two_loops = run [HoverMove (Some 0), HoverLeave] all_shown"

text \<open>
  Two clicks before any response; the first request has succeeded and playback has begun,
  the second request is still in flight.
\<close>

definition second_in_flight :: state where
  "second_in_flight =
     run [Click 100 200 (Some (0, 0)), Response 0 (Success three_samples)] awaiting"

section \<open>Properties\<close>

subsection \<open>Coordinate mapping\<close>

lemma toRobotCoords_toCanvasCoords:
  "toRobotCoords (fst (toCanvasCoords x y)) (snd (toCanvasCoords x y)) = \<lparr>pt_x = x, pt_y = y\<rparr>"
  by (simp add: toRobotCoords_def toCanvasCoords_def)

subsection \<open>Forward kinematics\<close>

lemma fk_loop_unfold3:
  "fk_loop q ls 0 x y a ps =
     (let a1 = a + q ! 0; x1 = x + ls ! 0 * cos a1; y1 = y + ls ! 0 * sin a1;
          a2 = a1 + q ! 1; x2 = x1 + ls ! 1 * cos a2; y2 = y1 + ls ! 1 * sin a2;
          a3 = a2 + q ! 2; x3 = x2 + ls ! 2 * cos a3; y3 = y2 + ls ! 2 * sin a3
      in ps @ [\<lparr>pt_x = x1, pt_y = y1\<rparr>, \<lparr>pt_x = x2, pt_y = y2\<rparr>, \<lparr>pt_x = x3, pt_y = y3\<rparr>])"
  by (simp add: fk_loop.simps [of _ _ 0] fk_loop.simps [of _ _ "Suc 0"]
      fk_loop.simps [of _ _ "Suc (Suc 0)"] fk_loop.simps [of _ _ "Suc (Suc (Suc 0))"]
      Let_def numeral_2_eq_2 numeral_3_eq_3)

lemma getJointPositions_points:
  "getJointPositions q l1 l2 l3 =
     [\<lparr>pt_x = 0, pt_y = 0\<rparr>,
      \<lparr>pt_x = l1 * cos (q ! 0), pt_y = l1 * sin (q ! 0)\<rparr>,
      \<lparr>pt_x = l1 * cos (q ! 0) + l2 * cos (q ! 0 + q ! 1),
       pt_y = l1 * sin (q ! 0) + l2 * sin (q ! 0 + q ! 1)\<rparr>,
      \<lparr>pt_x = l1 * cos (q ! 0) + l2 * cos (q ! 0 + q ! 1) + l3 * cos (q ! 0 + q ! 1 + q ! 2),
       pt_y = l1 * sin (q ! 0) + l2 * sin (q ! 0 + q ! 1) + l3 * sin (q ! 0 + q ! 1 + q ! 2)\<rparr>]"
  by (simp add: getJointPositions_def fk_loop_unfold3 Let_def)

lemma cum3:
  "(\<Sum>j\<le>(0::nat). (f j::real)) = f 0"
  "(\<Sum>j\<le>(1::nat). f j) = f 0 + f 1"
  "(\<Sum>j\<le>(2::nat). f j) = f 0 + f 1 + f 2"
  by (simp_all add: numeral_2_eq_2)

lemma turn_cos:
  "cos (a + 2 * pi) = cos a"
  "cos (a + 2 * pi + b) = cos (a + b)"
  "cos (a + 2 * pi + b + c) = cos (a + b + c)"
  "cos (a + (b + 2 * pi)) = cos (a + b)"
  "cos (a + (b + 2 * pi) + c) = cos (a + b + c)"
  "cos (a + b + (c + 2 * pi)) = cos (a + b + c)"
  using cos_periodic [of a] cos_periodic [of "a + b"] cos_periodic [of "a + b + c"]
  by (simp_all add: algebra_simps)

lemma turn_sin:
  "sin (a + 2 * pi) = sin a"
  "sin (a + 2 * pi + b) = sin (a + b)"
  "sin (a + 2 * pi + b + c) = sin (a + b + c)"
  "sin (a + (b + 2 * pi)) = sin (a + b)"
  "sin (a + (b + 2 * pi) + c) = sin (a + b + c)"
  "sin (a + b + (c + 2 * pi)) = sin (a + b + c)"
  using sin_periodic [of a] sin_periodic [of "a + b"] sin_periodic [of "a + b + c"]
  by (simp_all add: algebra_simps)

lemma less3: "(k::nat) < 3 \<longleftrightarrow> k = 0 \<or> k = 1 \<or> k = 2"
  by auto

text \<open>
  C3. For three joint angles and any link lengths, \<open>getJointPositions\<close> returns four
  points; the first is the base \<open>(0, 0)\<close>; each further point is the previous one plus
  \<open>length[k] \<cdot> (cos \<theta>, sin \<theta>)\<close> with \<open>\<theta>\<close> the sum of the angles up to joint \<open>k\<close>; and
  adding \<open>2\<pi>\<close> to any single angle leaves all four points as they are.
\<close>

theorem forwardKinematics_chain:
  assumes "length q = 3"
  shows "length (getJointPositions q l1 l2 l3) = 4
    \<and> getJointPositions q l1 l2 l3 ! 0 = \<lparr>pt_x = 0, pt_y = 0\<rparr>
    \<and> (\<forall>k<3. pt_x (getJointPositions q l1 l2 l3 ! (k + 1)) =
                 pt_x (getJointPositions q l1 l2 l3 ! k) + [l1, l2, l3] ! k * cos (\<Sum>j\<le>k. q ! j)
             \<and> pt_y (getJointPositions q l1 l2 l3 ! (k + 1)) =
                 pt_y (getJointPositions q l1 l2 l3 ! k) + [l1, l2, l3] ! k * sin (\<Sum>j\<le>k. q ! j))
    \<and> (\<forall>i<3. getJointPositions (q[i := q ! i + 2 * pi]) l1 l2 l3 = getJointPositions q l1 l2 l3)"
proof (intro conjI allI impI)
  show "length (getJointPositions q l1 l2 l3) = 4"
    by (simp add: getJointPositions_points)
  show "getJointPositions q l1 l2 l3 ! 0 = \<lparr>pt_x = 0, pt_y = 0\<rparr>"
    by (simp add: getJointPositions_points)
next
  fix k :: nat assume "k < 3"
  then consider "k = 0" | "k = 1" | "k = 2" by (auto simp: less3)
  then show "pt_x (getJointPositions q l1 l2 l3 ! (k + 1)) =
                 pt_x (getJointPositions q l1 l2 l3 ! k) + [l1, l2, l3] ! k * cos (\<Sum>j\<le>k. q ! j)"
    by cases (simp_all only: cum3, simp_all add: getJointPositions_points)
next
  fix k :: nat assume "k < 3"
  then consider "k = 0" | "k = 1" | "k = 2" by (auto simp: less3)
  then show "pt_y (getJointPositions q l1 l2 l3 ! (k + 1)) =
                 pt_y (getJointPositions q l1 l2 l3 ! k) + [l1, l2, l3] ! k * sin (\<Sum>j\<le>k. q ! j)"
    by cases (simp_all only: cum3, simp_all add: getJointPositions_points)
next
  fix i :: nat assume "i < 3"
  then consider "i = 0" | "i = 1" | "i = 2" by (auto simp: less3)
  then show "getJointPositions (q[i := q ! i + 2 * pi]) l1 l2 l3 = getJointPositions q l1 l2 l3"
    using assms by cases (simp_all add: getJointPositions_points turn_cos turn_sin)
qed

theorem forwardKinematics_chain_witness:
  "length [pi / 4, - pi / 4, - pi / 4 :: real] = 3
   \<and> length (getJointPositions [pi / 4, - pi / 4, - pi / 4] 100 80 60) = 4
   \<and> getJointPositions [pi / 4, - pi / 4, - pi / 4] 100 80 60 ! 0 = \<lparr>pt_x = 0, pt_y = 0\<rparr>
   \<and> pt_x (getJointPositions [pi / 4, - pi / 4, - pi / 4] 100 80 60 ! 3) =
       pt_x (getJointPositions [pi / 4, - pi / 4, - pi / 4] 100 80 60 ! 2) + 60 * cos (- pi / 4)
   \<and> getJointPositions [pi / 4, - pi / 4 + 2 * pi, - pi / 4] 100 80 60 =
       getJointPositions [pi / 4, - pi / 4, - pi / 4] 100 80 60"
proof -
  have len: "length [pi / 4, - pi / 4, - pi / 4 :: real] = 3" by simp
  note t = forwardKinematics_chain [OF len, of 100 80 60]
  note chain = t [THEN conjunct2, THEN conjunct2, THEN conjunct1, rule_format, of 2]
  note turn = t [THEN conjunct2, THEN conjunct2, THEN conjunct2, rule_format, of 1]
  have a: "length (getJointPositions [pi / 4, - pi / 4, - pi / 4] 100 80 60) = 4"
    using t by (rule conjunct1)
  have b: "getJointPositions [pi / 4, - pi / 4, - pi / 4] 100 80 60 ! 0 = \<lparr>pt_x = 0, pt_y = 0\<rparr>"
    using t [THEN conjunct2] by (rule conjunct1)
  have c: "pt_x (getJointPositions [pi / 4, - pi / 4, - pi / 4] 100 80 60 ! 3) =
       pt_x (getJointPositions [pi / 4, - pi / 4, - pi / 4] 100 80 60 ! 2) + 60 * cos (- pi / 4)"
    using chain by (simp only: cum3) simp
  have d: "getJointPositions [pi / 4, - pi / 4 + 2 * pi, - pi / 4] 100 80 60 =
       getJointPositions [pi / 4, - pi / 4, - pi / 4] 100 80 60"
    using turn by simp
  show ?thesis using len a b c d by blast
qed

subsection \<open>Live Jacobian\<close>

lemma sum_from3:
  "(\<Sum>k = (0::nat)..<3. (f k::real)) = f 0 + f 1 + f 2"
  "(\<Sum>k = (1::nat)..<3. f k) = f 1 + f 2"
  "(\<Sum>k = (2::nat)..<3. f k) = f 2"
  by (simp_all add: numeral_3_eq_3 numeral_2_eq_2)

lemma getLiveJacobian_rows:
  "getLiveJacobian s q =
     [[- L1 s * sin (q ! 0) - L2 s * sin (q ! 0 + q ! 1) - L3 s * sin (q ! 0 + q ! 1 + q ! 2),
       - L2 s * sin (q ! 0 + q ! 1) - L3 s * sin (q ! 0 + q ! 1 + q ! 2),
       - L3 s * sin (q ! 0 + q ! 1 + q ! 2)],
      [L1 s * cos (q ! 0) + L2 s * cos (q ! 0 + q ! 1) + L3 s * cos (q ! 0 + q ! 1 + q ! 2),
       L2 s * cos (q ! 0 + q ! 1) + L3 s * cos (q ! 0 + q ! 1 + q ! 2),
       L3 s * cos (q ! 0 + q ! 1 + q ! 2)]]"
  by (simp add: getLiveJacobian_def Let_def)

text \<open>
  C4. \<open>getLiveJacobian\<close> returns the two rows
  \<open>J[0][i] = - \<Sum>\<^bsub>k\<ge>i\<^esub> lengths[k] \<cdot> sin \<theta>\<^bsub>k+1\<^esub>\<close> and
  \<open>J[1][i] = \<Sum>\<^bsub>k\<ge>i\<^esub> lengths[k] \<cdot> cos \<theta>\<^bsub>k+1\<^esub>\<close> over the cumulative angles, and at the
  angles \<open>(0, 0, 0)\<close> it is \<open>[[0, 0, 0], [l1 + l2 + l3, l2 + l3, l3]]\<close>.
\<close>

theorem jacobian_entries:
  assumes "length q = 3"
  shows "length (getLiveJacobian s q) = 2
    \<and> (\<forall>i<3. getLiveJacobian s q ! 0 ! i =
                - (\<Sum>k = i..<3. [L1 s, L2 s, L3 s] ! k * sin (\<Sum>j\<le>k. q ! j))
             \<and> getLiveJacobian s q ! 1 ! i =
                (\<Sum>k = i..<3. [L1 s, L2 s, L3 s] ! k * cos (\<Sum>j\<le>k. q ! j)))
    \<and> getLiveJacobian s [0, 0, 0] = [[0, 0, 0], [L1 s + L2 s + L3 s, L2 s + L3 s, L3 s]]"
proof (intro conjI allI impI)
  show "length (getLiveJacobian s q) = 2" by (simp add: getLiveJacobian_rows)
  show "getLiveJacobian s [0, 0, 0] = [[0, 0, 0], [L1 s + L2 s + L3 s, L2 s + L3 s, L3 s]]"
    by (simp add: getLiveJacobian_rows)
next
  fix i :: nat assume "i < 3"
  then consider "i = 0" | "i = 1" | "i = 2" by (auto simp: less3)
  then show "getLiveJacobian s q ! 0 ! i =
      - (\<Sum>k = i..<3. [L1 s, L2 s, L3 s] ! k * sin (\<Sum>j\<le>k. q ! j))"
    by cases (simp_all only: sum_from3 cum3, simp_all add: getLiveJacobian_rows)
next
  fix i :: nat assume "i < 3"
  then consider "i = 0" | "i = 1" | "i = 2" by (auto simp: less3)
  then show "getLiveJacobian s q ! 1 ! i =
      (\<Sum>k = i..<3. [L1 s, L2 s, L3 s] ! k * cos (\<Sum>j\<le>k. q ! j))"
    by cases (simp_all only: sum_from3 cum3, simp_all add: getLiveJacobian_rows)
qed

theorem jacobian_entries_witness:
  "length [pi / 4, - pi / 4, - pi / 4 :: real] = 3
   \<and> getLiveJacobian initial [pi / 4, - pi / 4, - pi / 4] ! 0 ! 1 =
       - (80 * sin 0 + 60 * sin (- pi / 4))
   \<and> getLiveJacobian initial [pi / 4, - pi / 4, - pi / 4] ! 1 ! 1 =
       80 * cos 0 + 60 * cos (- pi / 4)
   \<and> getLiveJacobian initial [0, 0, 0] = [[0, 0, 0], [240, 140, 60]]"
proof -
  have len: "length [pi / 4, - pi / 4, - pi / 4 :: real] = 3" by simp
  note t = jacobian_entries [OF len, of initial]
  note entry = t [THEN conjunct2, THEN conjunct1, rule_format, of 1]
  have a: "getLiveJacobian initial [pi / 4, - pi / 4, - pi / 4] ! 0 ! 1 =
       - (80 * sin 0 + 60 * sin (- pi / 4))"
    using entry by (simp only: sum_from3 cum3) (simp add: initial_def)
  have b: "getLiveJacobian initial [pi / 4, - pi / 4, - pi / 4] ! 1 ! 1 =
       80 * cos 0 + 60 * cos (- pi / 4)"
    using entry by (simp only: sum_from3 cum3) (simp add: initial_def)
  have c: "getLiveJacobian initial [0, 0, 0] = [[0, 0, 0], [240, 140, 60]]"
    using t by (simp add: initial_def)
  show ?thesis using len a b c by blast
qed

text \<open>
  The matrix is the derivative of the end effector position of \<open>getJointPositions\<close> in
  each joint angle.
\<close>

lemma jacobian_is_derivative:
  "((\<lambda>t. pt_x (getJointPositions [t, b, c] (L1 s) (L2 s) (L3 s) ! 3))
      has_real_derivative getLiveJacobian s [a, b, c] ! 0 ! 0) (at a)"
  "((\<lambda>t. pt_x (getJointPositions [a, t, c] (L1 s) (L2 s) (L3 s) ! 3))
      has_real_derivative getLiveJacobian s [a, b, c] ! 0 ! 1) (at b)"
  "((\<lambda>t. pt_x (getJointPositions [a, b, t] (L1 s) (L2 s) (L3 s) ! 3))
      has_real_derivative getLiveJacobian s [a, b, c] ! 0 ! 2) (at c)"
  "((\<lambda>t. pt_y (getJointPositions [t, b, c] (L1 s) (L2 s) (L3 s) ! 3))
      has_real_derivative getLiveJacobian s [a, b, c] ! 1 ! 0) (at a)"
  "((\<lambda>t. pt_y (getJointPositions [a, t, c] (L1 s) (L2 s) (L3 s) ! 3))
      has_real_derivative getLiveJacobian s [a, b, c] ! 1 ! 1) (at b)"
  "((\<lambda>t. pt_y (getJointPositions [a, b, t] (L1 s) (L2 s) (L3 s) ! 3))
      has_real_derivative getLiveJacobian s [a, b, c] ! 1 ! 2) (at c)"
  by (simp_all add: getJointPositions_points getLiveJacobian_rows numeral_3_eq_3 numeral_2_eq_2)
     (auto intro!: derivative_eq_intros simp: algebra_simps)

subsection \<open>Reach clamping\<close>

lemma scaled_norm:
  fixes x y d m :: real
  assumes d: "d = sqrt (x\<^sup>2 + y\<^sup>2)" and pos: "0 < d" and m: "0 \<le> m"
  shows "sqrt ((x / d * m)\<^sup>2 + (y / d * m)\<^sup>2) = m"
proof -
  have "(x / d * m)\<^sup>2 + (y / d * m)\<^sup>2 = (x\<^sup>2 + y\<^sup>2) * (m / d)\<^sup>2"
    by (simp add: power_mult_distrib power_divide add_divide_distrib distrib_right)
  also have "x\<^sup>2 + y\<^sup>2 = d\<^sup>2"
    using d by simp
  also have "d\<^sup>2 * (m / d)\<^sup>2 = m\<^sup>2"
    using pos by (simp add: power2_eq_square)
  finally show ?thesis using m by simp
qed

text \<open>
  C2. For a reach \<open>m\<close> that is not negative (the sum of the link lengths minus the buffer;
  the sliders keep it above 129): a target at distance at most \<open>m\<close> from the base is
  returned as it is, the base itself included; a target farther away is moved to distance
  exactly \<open>m\<close>, on the ray from the base through the target.
\<close>

theorem clamp_reach:
  assumes "0 \<le> m"
  shows "(sqrt ((pt_x t)\<^sup>2 + (pt_y t)\<^sup>2) \<le> m \<longrightarrow> clamp t m = t)
    \<and> (pt_x t = 0 \<and> pt_y t = 0 \<longrightarrow> clamp t m = t)
    \<and> (sqrt ((pt_x t)\<^sup>2 + (pt_y t)\<^sup>2) > m \<longrightarrow>
          sqrt ((pt_x (clamp t m))\<^sup>2 + (pt_y (clamp t m))\<^sup>2) = m
        \<and> pt_x t * pt_y (clamp t m) - pt_y t * pt_x (clamp t m) = 0
        \<and> (\<exists>k\<ge>0. pt_x (clamp t m) = k * pt_x t \<and> pt_y (clamp t m) = k * pt_y t))"
proof (intro conjI impI)
  assume "sqrt ((pt_x t)\<^sup>2 + (pt_y t)\<^sup>2) \<le> m"
  then show "clamp t m = t" by (simp add: clamp_def Let_def)
next
  assume "pt_x t = 0 \<and> pt_y t = 0"
  then show "clamp t m = t" using assms by (simp add: clamp_def Let_def)
next
  assume far: "sqrt ((pt_x t)\<^sup>2 + (pt_y t)\<^sup>2) > m"
  define d where "d = sqrt ((pt_x t)\<^sup>2 + (pt_y t)\<^sup>2)"
  have pos: "0 < d" using far assms unfolding d_def by linarith
  have c: "clamp t m = t\<lparr>pt_x := pt_x t / d * m, pt_y := pt_y t / d * m\<rparr>"
    using far by (simp add: clamp_def Let_def d_def)
  show "sqrt ((pt_x (clamp t m))\<^sup>2 + (pt_y (clamp t m))\<^sup>2) = m"
    using scaled_norm [OF d_def pos assms] by (simp add: c)
  show "pt_x t * pt_y (clamp t m) - pt_y t * pt_x (clamp t m) = 0"
    by (simp add: c)
  show "\<exists>k\<ge>0. pt_x (clamp t m) = k * pt_x t \<and> pt_y (clamp t m) = k * pt_y t"
  proof (intro exI conjI)
    show "0 \<le> m / d" using pos assms by simp
    show "pt_x (clamp t m) = m / d * pt_x t" by (simp add: c)
    show "pt_y (clamp t m) = m / d * pt_y t" by (simp add: c)
  qed
qed

lemma sqrt_500: "sqrt ((300::real)\<^sup>2 + 400\<^sup>2) = 500"
proof -
  have "(300::real)\<^sup>2 + 400\<^sup>2 = 500\<^sup>2" by simp
  then have "sqrt ((300::real)\<^sup>2 + 400\<^sup>2) = \<bar>500\<bar>" by (simp only: real_sqrt_abs)
  then show ?thesis by simp
qed

theorem clamp_reach_witness:
  "(0::real) \<le> maxReach 100 80 60
   \<and> clamp \<lparr>pt_x = 30, pt_y = 40\<rparr> (maxReach 100 80 60) = \<lparr>pt_x = 30, pt_y = 40\<rparr>
   \<and> clamp \<lparr>pt_x = 0, pt_y = 0\<rparr> (maxReach 100 80 60) = \<lparr>pt_x = 0, pt_y = 0\<rparr>
   \<and> sqrt ((pt_x (clamp \<lparr>pt_x = 300, pt_y = 400\<rparr> (maxReach 100 80 60)))\<^sup>2
         + (pt_y (clamp \<lparr>pt_x = 300, pt_y = 400\<rparr> (maxReach 100 80 60)))\<^sup>2) = maxReach 100 80 60"
proof -
  have m: "(0::real) \<le> maxReach 100 80 60" by (simp add: maxReach_def)
  have near: "sqrt ((30::real)\<^sup>2 + 40\<^sup>2) \<le> maxReach 100 80 60"
  proof -
    have "(30::real)\<^sup>2 + 40\<^sup>2 = 50\<^sup>2" by simp
    then have "sqrt ((30::real)\<^sup>2 + 40\<^sup>2) = \<bar>50\<bar>" by (simp only: real_sqrt_abs)
    then show ?thesis by (simp add: maxReach_def)
  qed
  have far: "sqrt ((300::real)\<^sup>2 + 400\<^sup>2) > maxReach 100 80 60"
    by (simp only: sqrt_500) (simp add: maxReach_def)
  show ?thesis
    using m near far
      clamp_reach [OF m, of "\<lparr>pt_x = 30, pt_y = 40\<rparr>"]
      clamp_reach [OF m, of "\<lparr>pt_x = 0, pt_y = 0\<rparr>"]
      clamp_reach [OF m, of "\<lparr>pt_x = 300, pt_y = 400\<rparr>"]
    by simp
qed

subsection \<open>Display angles\<close>

text \<open>
  C10. A hover index without a sample (negative, at or beyond the length of the
  trajectory, or any index when the trajectory is empty) makes \<open>trajectory[hoverFrame]\<close>
  absent, and then the display angles are the live \<open>currentAngles\<close>; with a sample they
  are the three angles of that sample. The displayed pose is a triple whenever
  \<open>currentAngles\<close> is one.
\<close>

theorem displayAngles_fallback:
  "(hoverFrame s = Some h \<and> (h < 0 \<or> int (length (trajectory s)) \<le> h)
       \<longrightarrow> at_index (trajectory s) h = None)
   \<and> (trajectory s = [] \<longrightarrow> at_index (trajectory s) h = None)
   \<and> (hoverFrame s = Some h \<and> at_index (trajectory s) h = None
       \<longrightarrow> displayAngles s = currentAngles s)
   \<and> (hoverFrame s = None \<longrightarrow> displayAngles s = currentAngles s)
   \<and> (hoverFrame s = Some h \<and> 0 \<le> h \<and> h < int (length (trajectory s))
       \<longrightarrow> displayAngles s = angles_of (trajectory s ! nat h))
   \<and> (length (currentAngles s) = 3 \<longrightarrow> length (displayAngles s) = 3)"
  by (auto simp: displayAngles_def at_index_def angles_of_def split: option.splits)

theorem displayAngles_fallback_witness:
  "displayAngles (initial\<lparr>hoverFrame := Some 7\<rparr>) = home_pose
   \<and> displayAngles (initial\<lparr>hoverFrame := Some (- 1)\<rparr>) = home_pose
   \<and> displayAngles (initial\<lparr>hoverFrame := Some 1,
        trajectory := [\<lparr>time = 0, q1 = 1, q2 = 2, q3 = 3, ee_x = 0, ee_y = 0\<rparr>]\<rparr>) = home_pose
   \<and> displayAngles (initial\<lparr>hoverFrame := Some 0,
        trajectory := [\<lparr>time = 0, q1 = 1, q2 = 2, q3 = 3, ee_x = 0, ee_y = 0\<rparr>]\<rparr>) = [1, 2, 3]
   \<and> length (displayAngles (initial\<lparr>hoverFrame := Some 7\<rparr>)) = 3"
  using displayAngles_fallback [of "initial\<lparr>hoverFrame := Some 7\<rparr>" 7]
    displayAngles_fallback [of "initial\<lparr>hoverFrame := Some (- 1)\<rparr>" "- 1"]
    displayAngles_fallback [of "initial\<lparr>hoverFrame := Some 1,
        trajectory := [\<lparr>time = 0, q1 = 1, q2 = 2, q3 = 3, ee_x = 0, ee_y = 0\<rparr>]\<rparr>" 1]
    displayAngles_fallback [of "initial\<lparr>hoverFrame := Some 0,
        trajectory := [\<lparr>time = 0, q1 = 1, q2 = 2, q3 = 3, ee_x = 0, ee_y = 0\<rparr>]\<rparr>" 0]
  by (simp add: initial_def home_pose_def angles_of_def)

subsection \<open>Evaluating the event handlers\<close>

lemma enrich_fields [simp]:
  "time (enrich rq pt) = time pt" "q1 (enrich rq pt) = q1 pt"
  "q2 (enrich rq pt) = q2 pt" "q3 (enrich rq pt) = q3 pt"
  by (simp_all add: enrich_def Let_def)

lemmas handlers = handleCanvasClick_def handleResponse_def onMouseMove_def onMouseLeave_def
  resetPose_def fire_def animate_def rerender_def animationEffect_def cleanup_def remove_at_def
  Let_def

lemma run_Nil [simp]: "run [] s = s"
  by (simp add: run_def)

lemma run_Cons [simp]: "run (e # es) s = run es (step e s)"
  by (simp add: run_def)

lemma run_append: "run (es @ fs) s = run fs (run es s)"
  by (simp add: run_def)

lemma awaiting_fields:
  "length (inflight awaiting) = 1" "hoverFrame awaiting = None" "loops awaiting = []"
  "\<not> isAnimating awaiting" "trajectory awaiting = []" "currentAngles awaiting = home_pose"
  by (simp_all add: awaiting_def canvas_click_def initial_def handleCanvasClick_def Let_def)

lemma playing_in_timeout_fields:
  "isAnimating playing_in_timeout" "hoverFrame playing_in_timeout = None"
  "currentFrame playing_in_timeout = 1" "currentAngles playing_in_timeout = [1, 1, 1]"
  "trajectory playing_in_timeout = map (enrich (inflight awaiting ! 0)) three_samples"
  "loops playing_in_timeout =
     [\<lparr>loop_trajectory = map (enrich (inflight awaiting ! 0)) three_samples,
       frameIndex = 2, scheduled = Timeout, attached = True\<rparr>]"
  "inflight playing_in_timeout = []"
  by (simp_all add: playing_in_timeout_def awaiting_fields three_samples_def handlers)

lemma playing_fields:
  "isAnimating playing" "hoverFrame playing = None"
  "currentFrame playing = 1" "currentAngles playing = [1, 1, 1]"
  "trajectory playing = map (enrich (inflight awaiting ! 0)) three_samples"
  "loops playing =
     [\<lparr>loop_trajectory = map (enrich (inflight awaiting ! 0)) three_samples,
       frameIndex = 2, scheduled = AnimationFrame, attached = True\<rparr>]"
  "inflight playing = []"
  by (simp_all add: playing_def playing_in_timeout_fields fire_def)

subsection \<open>Playback to completion\<close>

lemma response_starts_loop:
  assumes "i < length (inflight s)" "hoverFrame s = None" "loops s = []" "data \<noteq> []"
  shows "single_loop (map (enrich (inflight s ! i)) data) 0 (step (Response i (Success data)) s)"
  using assms by (simp add: single_loop_def handlers)

lemma two_fires_show_frame:
  assumes "single_loop traj k s" "k < length traj"
  shows "single_loop traj (Suc k) (step (Fire 0) (step (Fire 0) s))"
    and "currentFrame (step (Fire 0) (step (Fire 0) s)) = k"
    and "currentAngles (step (Fire 0) (step (Fire 0) s)) = angles_of (traj ! k)"
  using assms by (simp_all add: single_loop_def handlers angles_of_def)

lemma fires_advance:
  assumes "single_loop traj k s" "k + n \<le> length traj"
  shows "single_loop traj (k + n) (run (replicate (2 * n) (Fire 0)) s)"
  using assms
proof (induction n arbitrary: k s)
  case 0
  then show ?case by simp
next
  case (Suc n)
  from Suc.prems have "k < length traj" by simp
  with Suc.prems(1) have "single_loop traj (Suc k) (step (Fire 0) (step (Fire 0) s))"
    by (rule two_fires_show_frame(1))
  moreover from Suc.prems have "Suc k + n \<le> length traj" by simp
  ultimately have "single_loop traj (Suc k + n)
      (run (replicate (2 * n) (Fire 0)) (step (Fire 0) (step (Fire 0) s)))"
    by (rule Suc.IH)
  then show ?case by simp
qed

lemma last_fire_commits:
  assumes "single_loop traj k s" "length traj \<le> k" "traj \<noteq> []"
  shows "\<not> isAnimating (step (Fire 0) s)" "hoverFrame (step (Fire 0) s) = None"
    "loops (step (Fire 0) s) = []"
    "currentAngles (step (Fire 0) s) = angles_of (last traj)"
  using assms by (simp_all add: single_loop_def handlers angles_of_def last_conv_nth)

text \<open>
  Playback that nothing disturbs does complete. Whenever the only scheduled callback is
  the animation frame of the attached loop and the frame index of that loop has reached
  the length of its trajectory, the frame makes the component Idle with \<open>currentAngles\<close>
  equal to the angles of the last sample, and no callback is left. Such a state is
  reached when a successful response with \<open>n > 0\<close> samples arrives while nothing is
  hovered and no callback is scheduled, and the callbacks of the loop then fire one after
  the other.
\<close>

lemma undisturbed_playback_completes:
  "(single_loop traj k s' \<and> length traj \<le> k \<and> traj \<noteq> [] \<longrightarrow>
       playbackState (step (Fire 0) s') = Idle
     \<and> currentAngles (step (Fire 0) s') = angles_of (last traj)
     \<and> loops (step (Fire 0) s') = []
     \<and> (\<forall>j. step (Fire j) (step (Fire 0) s') = step (Fire 0) s'))
   \<and> (i < length (inflight s) \<and> hoverFrame s = None \<and> loops s = [] \<and> data \<noteq> [] \<longrightarrow>
       playbackState (run (replicate (2 * length data) (Fire 0))
          (step (Response i (Success data)) s)) = Animating
     \<and> map frameIndex (loops (run (replicate (2 * length data) (Fire 0))
          (step (Response i (Success data)) s))) = [length data]
     \<and> playbackState (run (replicate (2 * length data + 1) (Fire 0))
          (step (Response i (Success data)) s)) = Idle
     \<and> currentAngles (run (replicate (2 * length data + 1) (Fire 0))
          (step (Response i (Success data)) s)) = angles_of (last data)
     \<and> loops (run (replicate (2 * length data + 1) (Fire 0))
          (step (Response i (Success data)) s)) = []
     \<and> (\<forall>j. step (Fire j) (run (replicate (2 * length data + 1) (Fire 0))
            (step (Response i (Success data)) s))
          = run (replicate (2 * length data + 1) (Fire 0)) (step (Response i (Success data)) s)))"
proof (rule conjI; rule impI; elim conjE)
  assume a: "single_loop traj k s'" "length traj \<le> k" "traj \<noteq> []"
  show "playbackState (step (Fire 0) s') = Idle
     \<and> currentAngles (step (Fire 0) s') = angles_of (last traj)
     \<and> loops (step (Fire 0) s') = []
     \<and> (\<forall>j. step (Fire j) (step (Fire 0) s') = step (Fire 0) s')"
    using last_fire_commits [OF a] by (simp add: playbackState_def fire_def)
next
  assume assms: "i < length (inflight s)" "hoverFrame s = None" "loops s = []" "data \<noteq> []"
  define traj' where "traj' = map (enrich (inflight s ! i)) data"
  define s0 where "s0 = step (Response i (Success data)) s"
  define s1 where "s1 = run (replicate (2 * length data) (Fire 0)) s0"
  define s2 where "s2 = run (replicate (2 * length data + 1) (Fire 0)) s0"
  have len: "length traj' = length data" and ne: "traj' \<noteq> []"
    using assms(4) by (simp_all add: traj'_def)
  have "single_loop traj' 0 s0"
    unfolding traj'_def s0_def using assms by (rule response_starts_loop)
  then have "single_loop traj' (0 + length data) s1"
    unfolding s1_def by (rule fires_advance) (simp add: len)
  then have at_end: "single_loop traj' (length data) s1" by simp
  have "replicate (2 * length data + 1) (Fire 0) = replicate (2 * length data) (Fire 0) @ [Fire 0]"
    by (simp add: replicate_append_same)
  then have s2: "s2 = step (Fire 0) s1"
    by (simp add: s2_def s1_def run_append)
  have a: "playbackState s1 = Animating" and b: "map frameIndex (loops s1) = [length data]"
    using at_end by (simp_all add: single_loop_def playbackState_def)
  have fin: "\<not> isAnimating s2" "hoverFrame s2 = None" "loops s2 = []"
    "currentAngles s2 = angles_of (last traj')"
    unfolding s2 using at_end _ ne by (rule last_fire_commits; simp add: len)+
  have c: "playbackState s2 = Idle"
    using fin by (simp add: playbackState_def)
  have d: "currentAngles s2 = angles_of (last data)"
    using fin(4) assms(4) by (simp add: traj'_def last_map angles_of_def)
  have e: "\<forall>j. step (Fire j) s2 = s2"
    using fin(3) by (simp add: fire_def)
  show "playbackState (run (replicate (2 * length data) (Fire 0))
          (step (Response i (Success data)) s)) = Animating
     \<and> map frameIndex (loops (run (replicate (2 * length data) (Fire 0))
          (step (Response i (Success data)) s))) = [length data]
     \<and> playbackState (run (replicate (2 * length data + 1) (Fire 0))
          (step (Response i (Success data)) s)) = Idle
     \<and> currentAngles (run (replicate (2 * length data + 1) (Fire 0))
          (step (Response i (Success data)) s)) = angles_of (last data)
     \<and> loops (run (replicate (2 * length data + 1) (Fire 0))
          (step (Response i (Success data)) s)) = []
     \<and> (\<forall>j. step (Fire j) (run (replicate (2 * length data + 1) (Fire 0))
            (step (Response i (Success data)) s))
          = run (replicate (2 * length data + 1) (Fire 0)) (step (Response i (Success data)) s))"
    using a b c d e fin(3) unfolding s1_def s2_def s0_def by blast
qed

lemma all_shown_fields:
  "isAnimating all_shown" "hoverFrame all_shown = None"
  "currentFrame all_shown = 2" "currentAngles all_shown = [2, 2, 2]"
  "trajectory all_shown = map (enrich (inflight awaiting ! 0)) three_samples"
  "loops all_shown =
     [\<lparr>loop_trajectory = map (enrich (inflight awaiting ! 0)) three_samples,
       frameIndex = 3, scheduled = Timeout, attached = True\<rparr>]"
  by (simp_all add: all_shown_def playing_fields three_samples_def handlers)

lemma two_loops_fields:
  "isAnimating two_loops" "hoverFrame two_loops = None"
  "currentFrame two_loops = 2" "currentAngles two_loops = [2, 2, 2]"
  "trajectory two_loops = map (enrich (inflight awaiting ! 0)) three_samples"
  "loops two_loops =
     [\<lparr>loop_trajectory = map (enrich (inflight awaiting ! 0)) three_samples,
       frameIndex = 3, scheduled = Timeout, attached = False\<rparr>,
      \<lparr>loop_trajectory = map (enrich (inflight awaiting ! 0)) three_samples,
       frameIndex = 0, scheduled = AnimationFrame, attached = True\<rparr>]"
  by (simp_all add: two_loops_def all_shown_fields three_samples_def handlers)

text \<open>
  C5, evaluated. In \<open>two_loops\<close> all three frames have been shown, and a hover during the
  last timeout has left the old loop running (the cleanup cancels no timeout) next to
  the loop that hover-leave started at frame 0. The new loop shows frame 0; the old
  loop, whose frame index 3 has reached the length of the trajectory, makes the
  component Idle at the angles of the last sample. The clock is not stopped: the timeout
  of the new loop is still scheduled, and its next frame moves the Idle arm to the
  angles of sample 1. Only when the frame of the new loop is the pending callback at
  that moment does the cleanup cancel it. And a successful response with an empty
  trajectory never leaves Animating: frame index 0 is the length of the trajectory, no
  loop starts that could commit Idle, and every later click is ignored.
\<close>

theorem completion_leaves_loop_ticking:
  "playbackState two_loops = Animating
   \<and> map frameIndex (loops two_loops) = [3, 0]
   \<and> playbackState (run [Fire 1, Fire 0, Fire 0] two_loops) = Idle
   \<and> currentAngles (run [Fire 1, Fire 0, Fire 0] two_loops) = [2, 2, 2]
   \<and> loops (run [Fire 1, Fire 0, Fire 0] two_loops) =
       [\<lparr>loop_trajectory = map (enrich (inflight awaiting ! 0)) three_samples,
         frameIndex = 1, scheduled = Timeout, attached = False\<rparr>]
   \<and> playbackState (run [Fire 1, Fire 0, Fire 0, Fire 0, Fire 0] two_loops) = Idle
   \<and> currentFrame (run [Fire 1, Fire 0, Fire 0, Fire 0, Fire 0] two_loops) = 1
   \<and> currentAngles (run [Fire 1, Fire 0, Fire 0, Fire 0, Fire 0] two_loops) = [1, 1, 1]
   \<and> playbackState (run [Fire 0, Fire 0] two_loops) = Idle
   \<and> loops (run [Fire 0, Fire 0] two_loops) = []
   \<and> playbackState (step (Response 0 (Success [])) awaiting) = Animating
   \<and> currentFrame (step (Response 0 (Success [])) awaiting) = length (trajectory (step (Response 0 (Success [])) awaiting))
   \<and> loops (step (Response 0 (Success [])) awaiting) = []
   \<and> step canvas_click (step (Response 0 (Success [])) awaiting) = step (Response 0 (Success [])) awaiting"
  by (simp add: two_loops_fields awaiting_fields three_samples_def playbackState_def
      canvas_click_def handlers)

subsection \<open>Clicks\<close>

text \<open>
  C7, as stated, fails: in \<open>awaiting\<close> a request is in flight and the component is Idle;
  a further click is not ignored, it changes the state and puts a second request in
  flight.
\<close>

theorem click_during_request_issues_second:
  "inflight awaiting \<noteq> [] \<and> playbackState awaiting = Idle
   \<and> step (Click 100 200 (Some (0, 0))) awaiting \<noteq> awaiting
   \<and> length (inflight (step (Click 100 200 (Some (0, 0))) awaiting)) = 2"
proof -
  have n: "length (inflight (step (Click 100 200 (Some (0, 0))) awaiting)) = 2"
    by (simp add: handleCanvasClick_def Let_def awaiting_fields)
  have "length (inflight awaiting) = 1" by (simp add: awaiting_fields)
  with n have "step (Click 100 200 (Some (0, 0))) awaiting \<noteq> awaiting" by auto
  moreover have "inflight awaiting \<noteq> []" using awaiting_fields(1) by auto
  moreover have "playbackState awaiting = Idle"
    by (simp add: playbackState_def awaiting_fields)
  ultimately show ?thesis using n by blast
qed

text \<open>
  C7, amended. A click while \<open>isAnimating\<close> holds is ignored: the state stays as it is and
  no request is issued. A click on the canvas while \<open>isAnimating\<close> does not hold (Idle, or
  Scrubbing over Idle) is accepted, whether or not earlier requests are still in flight:
  it sets the target marker to the clamped target, clears the error, and puts exactly one
  more request in flight.
\<close>

theorem click_gate:
  "(isAnimating s \<longrightarrow> step (Click clientX clientY rect) s = s)
   \<and> step (Click clientX clientY None) s = s
   \<and> (\<not> isAnimating s \<longrightarrow>
        step (Click clientX clientY (Some (rect_left, rect_top))) s =
          s\<lparr>targetXY := Some (clamp (toRobotCoords (clientX - rect_left) (clientY - rect_top))
                              (maxReach (L1 s) (L2 s) (L3 s))),
            error := None,
            inflight := inflight s @
              [\<lparr>req_current_angles = currentAngles s,
                req_target_x = pt_x (clamp (toRobotCoords (clientX - rect_left) (clientY - rect_top))
                              (maxReach (L1 s) (L2 s) (L3 s))),
                req_target_y = pt_y (clamp (toRobotCoords (clientX - rect_left) (clientY - rect_top))
                              (maxReach (L1 s) (L2 s) (L3 s))),
                req_duration = duration s, req_dt = 0.05,
                req_l1 = L1 s, req_l2 = L2 s, req_l3 = L3 s\<rparr>]\<rparr>
        \<and> length (inflight (step (Click clientX clientY (Some (rect_left, rect_top))) s))
            = length (inflight s) + 1)"
  by (simp add: handleCanvasClick_def Let_def)

theorem click_gate_witness:
  "isAnimating playing \<and> step canvas_click playing = playing
   \<and> \<not> isAnimating awaiting
   \<and> length (inflight (step (Click 100 200 (Some (0, 0))) awaiting)) = length (inflight awaiting) + 1"
  using click_gate [of playing 400 300 "Some (0, 0)"] click_gate [of awaiting 100 200 _ 0 0]
  by (simp add: playing_fields awaiting_fields canvas_click_def)

subsection \<open>Responses\<close>

text \<open>
  C8, as stated, fails: a request is in flight, Reset clears the trajectory and leaves the
  component Idle, and the response to the superseded request is applied all the same: a
  successful one installs its trajectory and starts Animating, a failed one is shown as
  an error.
\<close>

theorem stale_response_after_reset_applied:
  "trajectory (step Reset awaiting) = [] \<and> playbackState (step Reset awaiting) = Idle
   \<and> trajectory (run [Reset, Response 0 (Success three_samples)] awaiting) \<noteq> []
   \<and> playbackState (run [Reset, Response 0 (Success three_samples)] awaiting) = Animating
   \<and> error (run [Reset, Response 0 (Thrown ''Failed to fetch'')] awaiting) = Some ''Failed to fetch''"
  by (simp add: awaiting_fields three_samples_def playbackState_def handlers)

text \<open>
  C8, amended. Neither Reset nor a newer click removes a request that is in flight, and a
  response is applied in whatever state it arrives: a successful one replaces the
  trajectory by its enriched samples, sets the current frame to 0 and sets \<open>isAnimating\<close>;
  a failed one sets the error message and clears the target marker, and changes neither
  the trajectory, nor \<open>isAnimating\<close>, nor the angles.
\<close>

theorem response_applied_on_arrival:
  assumes "i < length (inflight s)"
  shows "inflight (step Reset s) = inflight s
    \<and> take (length (inflight s)) (inflight (step (Click clientX clientY rect) s)) = inflight s
    \<and> trajectory (step (Response i (Success data)) s) = map (enrich (inflight s ! i)) data
    \<and> currentFrame (step (Response i (Success data)) s) = 0
    \<and> isAnimating (step (Response i (Success data)) s)
    \<and> (failure_message r = Some msg \<longrightarrow>
         error (step (Response i r) s) = Some msg
       \<and> targetXY (step (Response i r) s) = None
       \<and> trajectory (step (Response i r) s) = trajectory s
       \<and> isAnimating (step (Response i r) s) = isAnimating s
       \<and> currentAngles (step (Response i r) s) = currentAngles s)"
proof (intro conjI impI)
  show "inflight (step Reset s) = inflight s"
    by (simp add: resetPose_def rerender_def animationEffect_def)
  show "take (length (inflight s)) (inflight (step (Click clientX clientY rect) s)) = inflight s"
    by (simp add: handleCanvasClick_def Let_def split: option.splits prod.splits)
  show "trajectory (step (Response i (Success data)) s) = map (enrich (inflight s ! i)) data"
    and "currentFrame (step (Response i (Success data)) s) = 0"
    and "isAnimating (step (Response i (Success data)) s)"
    using assms by (simp_all add: handleResponse_def rerender_def animationEffect_def Let_def)
next
  assume "failure_message r = Some msg"
  then show "error (step (Response i r) s) = Some msg"
    and "targetXY (step (Response i r) s) = None"
    and "trajectory (step (Response i r) s) = trajectory s"
    and "isAnimating (step (Response i r) s) = isAnimating s"
    and "currentAngles (step (Response i r) s) = currentAngles s"
    using assms by (cases r; simp add: handleResponse_def Let_def)+
qed

theorem response_applied_on_arrival_witness:
  "0 < length (inflight (step Reset awaiting))
   \<and> inflight (step Reset awaiting) = inflight awaiting
   \<and> trajectory (step (Response 0 (Success three_samples)) (step Reset awaiting))
       = map (enrich (inflight (step Reset awaiting) ! 0)) three_samples
   \<and> isAnimating (step (Response 0 (Success three_samples)) (step Reset awaiting))
   \<and> error (step (Response 0 (NotOk None)) (step Reset awaiting))
       = Some ''Failed to generate trajectory''"
proof -
  have 0: "0 < length (inflight awaiting)" by (simp add: awaiting_fields)
  have r: "inflight (step Reset awaiting) = inflight awaiting"
    using response_applied_on_arrival [OF 0] by blast
  have 1: "0 < length (inflight (step Reset awaiting))" using 0 r by simp
  have m: "failure_message (NotOk None) = Some ''Failed to generate trajectory''" by simp
  from response_applied_on_arrival [OF 1, of _ _ _ three_samples "NotOk None"
      "''Failed to generate trajectory''"] m 1 r
  show ?thesis by blast
qed

lemma second_in_flight_fields:
  "isAnimating second_in_flight" "hoverFrame second_in_flight = None"
  "length (inflight second_in_flight) = 1" "targetXY second_in_flight \<noteq> None"
  "currentAngles second_in_flight = home_pose"
  by (simp_all add: second_in_flight_def awaiting_fields three_samples_def handlers)

text \<open>
  C9, as stated, fails: both clicks are accepted while the component is Idle, the request
  of the first succeeds and starts playback, and then the request of the second fails.
  Its failure shows the error and clears the target marker, but the component is
  Animating, not Idle.
\<close>

theorem failure_while_animating_not_idle:
  "playbackState initial = Idle \<and> playbackState awaiting = Idle
   \<and> second_in_flight =
       run [canvas_click, Click 100 200 (Some (0, 0)), Response 0 (Success three_samples)] initial
   \<and> playbackState (step (Response 0 (NotOk (Some (JString ''Target unreachable''))))
         second_in_flight) = Animating
   \<and> error (step (Response 0 (NotOk (Some (JString ''Target unreachable''))))
         second_in_flight) = Some ''Target unreachable''
   \<and> targetXY (step (Response 0 (NotOk (Some (JString ''Target unreachable''))))
         second_in_flight) = None"
proof -
  have "playbackState initial = Idle"
    by (simp add: playbackState_def initial_def)
  moreover have "playbackState awaiting = Idle"
    by (simp add: playbackState_def awaiting_fields)
  moreover have "second_in_flight =
      run [canvas_click, Click 100 200 (Some (0, 0)), Response 0 (Success three_samples)] initial"
    by (simp add: second_in_flight_def awaiting_def)
  moreover have "playbackState (step (Response 0 (NotOk (Some (JString ''Target unreachable''))))
         second_in_flight) = Animating"
    and "error (step (Response 0 (NotOk (Some (JString ''Target unreachable''))))
         second_in_flight) = Some ''Target unreachable''"
    and "targetXY (step (Response 0 (NotOk (Some (JString ''Target unreachable''))))
         second_in_flight) = None"
    by (simp_all add: second_in_flight_fields playbackState_def handleResponse_def Let_def)
  ultimately show ?thesis by blast
qed

text \<open>
  C9, amended. A response that fails (not \<open>ok\<close>, or an exception) leaves the playback
  state, the angles, the trajectory and the scheduled callbacks as they are when it
  arrives; it clears the target marker, stores its message as the error, and only
  removes its own request from those in flight (no retry). So a click in an Idle
  component whose request fails next leaves the state as it was before the click, except
  that the target marker is absent and the error is set. The message is
  \<open>Failed to generate trajectory\<close> when the detail of the response is missing or falsy,
  the detail itself when that is a string that is not empty, and the message of the
  exception otherwise.
\<close>

theorem failed_request_keeps_playback:
  assumes "failure_message r = Some msg"
  shows "(i < length (inflight s) \<longrightarrow>
           playbackState (step (Response i r) s) = playbackState s
         \<and> currentAngles (step (Response i r) s) = currentAngles s
         \<and> trajectory (step (Response i r) s) = trajectory s
         \<and> loops (step (Response i r) s) = loops s
         \<and> targetXY (step (Response i r) s) = None
         \<and> error (step (Response i r) s) = Some msg
         \<and> inflight (step (Response i r) s) = remove_at i (inflight s))
    \<and> (playbackState s = Idle \<longrightarrow>
           targetXY (step (Click clientX clientY (Some rect)) s) \<noteq> None
         \<and> run [Click clientX clientY (Some rect), Response (length (inflight s)) r] s
             = s\<lparr>targetXY := None, error := Some msg\<rparr>)
    \<and> (r = NotOk None \<longrightarrow> msg = ''Failed to generate trajectory'')
    \<and> (\<forall>v. r = NotOk (Some v) \<and> \<not> truthy v \<longrightarrow> msg = ''Failed to generate trajectory'')
    \<and> (\<forall>d. r = NotOk (Some (JString d)) \<and> d \<noteq> [] \<longrightarrow> msg = d)
    \<and> (\<forall>m. r = Thrown m \<longrightarrow> msg = m)"
proof (intro conjI impI allI)
  assume "i < length (inflight s)"
  then show "playbackState (step (Response i r) s) = playbackState s"
    and "currentAngles (step (Response i r) s) = currentAngles s"
    and "trajectory (step (Response i r) s) = trajectory s"
    and "loops (step (Response i r) s) = loops s"
    and "targetXY (step (Response i r) s) = None"
    and "error (step (Response i r) s) = Some msg"
    and "inflight (step (Response i r) s) = remove_at i (inflight s)"
    using assms by (cases r; simp add: handleResponse_def playbackState_def Let_def)+
next
  assume idle: "playbackState s = Idle"
  then have na: "\<not> isAnimating s"
    by (simp add: playbackState_def split: if_splits)
  obtain rect_left rect_top where rect: "rect = (rect_left, rect_top)" by (cases rect)
  show "targetXY (step (Click clientX clientY (Some rect)) s) \<noteq> None"
    using na by (simp add: rect handleCanvasClick_def Let_def)
  show "run [Click clientX clientY (Some rect), Response (length (inflight s)) r] s
             = s\<lparr>targetXY := None, error := Some msg\<rparr>"
    using na assms
    by (cases r; simp add: rect handleCanvasClick_def handleResponse_def remove_at_def Let_def)
next
  assume "r = NotOk None"
  then show "msg = ''Failed to generate trajectory''" using assms by simp
next
  fix v assume "r = NotOk (Some v) \<and> \<not> truthy v"
  then show "msg = ''Failed to generate trajectory''" using assms by auto
next
  fix d assume "r = NotOk (Some (JString d)) \<and> d \<noteq> []"
  then show "msg = d" using assms by auto
next
  fix m assume "r = Thrown m"
  then show "msg = m" using assms by simp
qed

theorem failed_request_keeps_playback_witness:
  "failure_message (NotOk (Some (JString ''Target unreachable''))) = Some ''Target unreachable''
   \<and> playbackState initial = Idle
   \<and> run [Click 400 300 (Some (0, 0)),
           Response (length (inflight initial)) (NotOk (Some (JString ''Target unreachable'')))] initial
       = initial\<lparr>targetXY := None, error := Some ''Target unreachable''\<rparr>
   \<and> 0 < length (inflight second_in_flight)
   \<and> playbackState (step (Response 0 (NotOk (Some (JString ''Target unreachable''))))
         second_in_flight) = playbackState second_in_flight
   \<and> targetXY (step (Response 0 (NotOk (Some (JString ''Target unreachable''))))
         second_in_flight) = None
   \<and> error (step (Response 0 (NotOk (Some (JString ''Target unreachable''))))
         second_in_flight) = Some ''Target unreachable''"
proof -
  have m: "failure_message (NotOk (Some (JString ''Target unreachable''))) = Some ''Target unreachable''"
    by simp
  have idle: "playbackState initial = Idle"
    by (simp add: playbackState_def initial_def)
  have 0: "0 < length (inflight second_in_flight)" by (simp add: second_in_flight_fields)
  from failed_request_keeps_playback [OF m, of _ initial 400 300 "(0, 0)"]
    failed_request_keeps_playback [OF m, of 0 second_in_flight] m idle 0
  show ?thesis by blast
qed

text \<open>
  A detail that is truthy and no string becomes the message by string conversion: the
  empty array gives the empty message, which the header does not show, and a list of
  objects gives \<open>[object Object]\<close>.
\<close>

lemma non_string_detail_messages:
  "failure_message (NotOk (Some (JArray []))) = Some []"
  "errorBanner (step (Response 0 (NotOk (Some (JArray [])))) awaiting) = None"
  "failure_message (NotOk (Some (JArray [JObject [(''msg'', JString ''field required'')]])))
     = Some ''[object Object]''"
  by (simp_all add: errorBanner_def handleResponse_def awaiting_fields Let_def)

subsection \<open>Hover\<close>

text \<open>
  Hover events change \<open>hoverFrame\<close> and the scheduled loops only. Entering runs the
  cleanup on the loops; leaving while Animating always starts a loop at frame 0.
\<close>

lemma hover_keeps_playback_fields:
  "currentFrame (onMouseMove k s) = currentFrame s"
  "currentAngles (onMouseMove k s) = currentAngles s"
  "trajectory (onMouseMove k s) = trajectory s"
  "isAnimating (onMouseMove k s) = isAnimating s"
  "currentFrame (onMouseLeave s) = currentFrame s"
  "currentAngles (onMouseLeave s) = currentAngles s"
  "trajectory (onMouseLeave s) = trajectory s"
  "isAnimating (onMouseLeave s) = isAnimating s"
  by (simp_all add: onMouseMove_def onMouseLeave_def rerender_def animationEffect_def
      split: option.splits)

lemma hover_leave_starts_at_frame_0:
  assumes "isAnimating s" "trajectory s \<noteq> []" "hoverFrame s \<noteq> None"
  shows "loops (onMouseLeave s) =
     cleanup (loops s) @ [\<lparr>loop_trajectory = trajectory s, frameIndex = 0,
                            scheduled = AnimationFrame, attached = True\<rparr>]"
  using assms by (auto simp: onMouseLeave_def rerender_def animationEffect_def)

lemma hover_enter_drops_or_detaches:
  assumes "hoverFrame s = None"
  shows "loops (onMouseMove (Some k) s) = cleanup (loops s)"
  using assms by (simp add: onMouseMove_def rerender_def animationEffect_def)

text \<open>
  C1, evaluated. In \<open>playing\<close> frames 0 and 1 have been shown and the loop is about to
  show frame 2. Hovering makes the hovered sample the displayed one and leaves
  \<open>currentFrame\<close> at 1, but the cleanup of the effect drops the loop together with its
  \<open>frameIndex\<close>. On leaving, the displayed angles are those of frame 1, and the effect
  starts a new loop at \<open>frameIndex = 0\<close>: the next animation frame shows frame 0, not
  frame 2. When the hover begins during the 50 ms timeout (\<open>playing_in_timeout\<close>), the
  old loop is not cancelled at all, and after leaving two loops run, at frames 2 and 0.
\<close>

theorem hover_restarts_playback:
  "playbackState playing = Animating
   \<and> currentFrame playing = 1
   \<and> map frameIndex (loops playing) = [2]
   \<and> playbackState (step (HoverMove (Some 0)) playing) = Scrubbing
   \<and> displayAngles (step (HoverMove (Some 0)) playing) = [0, 0, 0]
   \<and> currentFrame (step (HoverMove (Some 0)) playing) = 1
   \<and> loops (step (HoverMove (Some 0)) playing) = []
   \<and> playbackState (run [HoverMove (Some 0), HoverLeave] playing) = Animating
   \<and> displayAngles (run [HoverMove (Some 0), HoverLeave] playing) = [1, 1, 1]
   \<and> map frameIndex (loops (run [HoverMove (Some 0), HoverLeave] playing)) = [0]
   \<and> currentFrame (run [HoverMove (Some 0), HoverLeave, Fire 0] playing) = 0
   \<and> displayAngles (run [HoverMove (Some 0), HoverLeave, Fire 0] playing) = [0, 0, 0]
   \<and> map frameIndex (loops (run [HoverMove (Some 0), HoverLeave] playing_in_timeout)) = [2, 0]"
  by (simp add: playing_fields playing_in_timeout_fields three_samples_def playbackState_def
      displayAngles_def at_index_def angles_of_def handlers)

subsection \<open>Reset\<close>

lemma reset_fields:
  "currentAngles (resetPose s) = home_pose" "trajectory (resetPose s) = []"
  "targetXY (resetPose s) = None" "error (resetPose s) = None"
  "hoverFrame (resetPose s) = None" "isAnimating (resetPose s) = isAnimating s"
  by (simp_all add: resetPose_def rerender_def animationEffect_def home_pose_def)

lemma reset_when_not_animating:
  "\<not> isAnimating s \<Longrightarrow> playbackState (step Reset s) = Idle"
  by (simp add: playbackState_def reset_fields)

text \<open>
  C6, evaluated. Reset does not touch \<open>isAnimating\<close>. In \<open>playing\<close> it cancels the
  scheduled animation frame and empties the trajectory, so the component stays Animating
  with no callback left that could end it, and every later click is ignored. In
  \<open>playing_in_timeout\<close> the pending timeout survives: its loop goes on over the old
  trajectory, overwrites the home pose with frame 2, and ends Idle at the angles of the
  last sample.
\<close>

theorem reset_while_animating_not_idle:
  "playbackState playing = Animating
   \<and> playbackState (step Reset playing) = Animating
   \<and> trajectory (step Reset playing) = []
   \<and> loops (step Reset playing) = []
   \<and> step canvas_click (step Reset playing) = step Reset playing
   \<and> playbackState playing_in_timeout = Animating
   \<and> playbackState (step Reset playing_in_timeout) = Animating
   \<and> currentAngles (run [Reset, Fire 0, Fire 0] playing_in_timeout) = [2, 2, 2]
   \<and> playbackState (run [Reset, Fire 0, Fire 0, Fire 0, Fire 0] playing_in_timeout) = Idle
   \<and> currentAngles (run [Reset, Fire 0, Fire 0, Fire 0, Fire 0] playing_in_timeout) = [2, 2, 2]"
  by (simp add: playing_fields playing_in_timeout_fields three_samples_def playbackState_def
      canvas_click_def handlers)

end
